theory Spec2Isabelle
  imports Main "HOL-Library.AList"
begin

section \<open>JavaScript values\<close>

text \<open>
  The handler of \<^verbatim>\<open>rule_code.js\<close> works on values that come out of \<^verbatim>\<open>JSON.parse\<close>, out of the
  AWS SDK and out of the evaluator. They are embedded as one datatype: the primitives, plain
  objects (an association list in insertion order), arrays (their elements, and the named
  properties an assignment may add to them) and \<^verbatim>\<open>String\<close> objects (which
  \<^verbatim>\<open>instanceof String\<close> recognises). Numbers are integers: the code computes with array
  lengths and loop indices only, every other number is passed through untouched.
\<close>

datatype jsval =
    JUndefined
  | JNull
  | JBool bool
  | JNum int
  | JStr string
  | JObj "(string \<times> jsval) list"
  | JArr "jsval list" "(string \<times> jsval) list"
  | JStringObj string "(string \<times> jsval) list"

text \<open>What the code throws: \<^verbatim>\<open>new Error(msg)\<close>, the built-in errors of the language, and
  whatever value an evaluator throws.\<close>

datatype exn =
    JsError string
  | TypeError
  | ReferenceError
  | SyntaxError
  | Thrown jsval

text \<open>\<^verbatim>\<open>!reference\<close> is true for undefined, null, false, 0 and the empty string.\<close>

fun truthy :: "jsval \<Rightarrow> bool" where
  "truthy JUndefined = False"
| "truthy JNull = False"
| "truthy (JBool b) = b"
| "truthy (JNum n) = (n \<noteq> 0)"
| "truthy (JStr s) = (s \<noteq> [])"
| "truthy (JObj ps) = True"
| "truthy (JArr xs ps) = True"
| "truthy (JStringObj s ps) = True"

definition lookup :: "(string \<times> jsval) list \<Rightarrow> string \<Rightarrow> jsval" where
  "lookup ps k = (case map_of ps k of Some v \<Rightarrow> v | None \<Rightarrow> JUndefined)"

text \<open>
  \<^verbatim>\<open>v.k\<close> for a value that is neither null nor undefined. The names the code reads are
  fixed identifiers, none of them a member of a built-in prototype but \<^verbatim>\<open>length\<close>,
  which arrays and strings own.
\<close>

fun read_prop :: "jsval \<Rightarrow> string \<Rightarrow> jsval" where
  "read_prop (JObj ps) k = lookup ps k"
| "read_prop (JArr xs ps) k = (if k = ''length'' then JNum (int (length xs)) else lookup ps k)"
| "read_prop (JStringObj s ps) k = (if k = ''length'' then JNum (int (length s)) else lookup ps k)"
| "read_prop (JStr s) k = (if k = ''length'' then JNum (int (length s)) else JUndefined)"
| "read_prop v k = JUndefined"

text \<open>\<^verbatim>\<open>v.k\<close>: a TypeError on null and undefined.\<close>

definition get_prop :: "jsval \<Rightarrow> string \<Rightarrow> exn + jsval" where
  "get_prop v k = (if v = JUndefined \<or> v = JNull then Inl TypeError else Inr (read_prop v k))"

text \<open>
  \<^verbatim>\<open>v.k = w\<close> in strict mode, for the names the code assigns (none is \<^verbatim>\<open>length\<close> or an
  index): objects, arrays and String objects get or replace an own property, null and
  undefined raise a TypeError, and so does every primitive (strict mode refuses to create a
  property on it).
\<close>

fun set_prop :: "jsval \<Rightarrow> string \<Rightarrow> jsval \<Rightarrow> exn + jsval" where
  "set_prop (JObj ps) k w = Inr (JObj (AList.update k w ps))"
| "set_prop (JArr xs ps) k w = Inr (JArr xs (AList.update k w ps))"
| "set_prop (JStringObj s ps) k w = Inr (JStringObj s (AList.update k w ps))"
| "set_prop v k w = Inl TypeError"

text \<open>The decimal name of an index, as \<^verbatim>\<open>o[i]\<close> uses it on a plain object.\<close>

fun dec :: "nat \<Rightarrow> string" where
  "dec n = (if n < 10 then [char_of (48 + n)] else dec (n div 10) @ [char_of (48 + n mod 10)])"

declare dec.simps [simp del]

text \<open>\<^verbatim>\<open>v[i]\<close> for a number \<open>i\<close>: undefined beyond the end of an array, a one-character string
  inside a string.\<close>

fun index_of :: "jsval \<Rightarrow> nat \<Rightarrow> jsval" where
  "index_of (JArr xs ps) i = (if i < length xs then xs ! i else JUndefined)"
| "index_of (JObj ps) i = lookup ps (dec i)"
| "index_of (JStr s) i = (if i < length s then JStr [s ! i] else JUndefined)"
| "index_of (JStringObj s ps) i = (if i < length s then JStr [s ! i] else lookup ps (dec i))"
| "index_of v i = JUndefined"

definition get_index :: "jsval \<Rightarrow> nat \<Rightarrow> exn + jsval" where
  "get_index v i = (if v = JUndefined \<or> v = JNull then Inl TypeError else Inr (index_of v i))"

text \<open>
  \<^verbatim>\<open>a === b\<close>: primitives are equal when they are the same value; an object is equal only to
  itself, and the two operands the code compares are read out of two separately parsed
  texts, so they are never the same object.
\<close>

fun primitive :: "jsval \<Rightarrow> bool" where
  "primitive (JObj ps) = False"
| "primitive (JArr xs ps) = False"
| "primitive (JStringObj s ps) = False"
| "primitive v = True"

definition strict_eq :: "jsval \<Rightarrow> jsval \<Rightarrow> bool" where
  "strict_eq a b = (primitive a \<and> a = b)"

text \<open>Sequencing of computations that may throw.\<close>

definition bindE :: "exn + 'a \<Rightarrow> ('a \<Rightarrow> exn + 'b) \<Rightarrow> exn + 'b" where
  "bindE m f = (case m of Inl e \<Rightarrow> Inl e | Inr a \<Rightarrow> f a)"

section \<open>The example evaluator\<close>

text \<open>
  \<^verbatim>\<open>
  function evaluateCompliance(configurationItem, ruleParameters) {
      if (configurationItem.resourceType !== 'AWS::EC2::Instance') {
          return 'NOT_APPLICABLE';
      } else if (ruleParameters.desiredInstanceType === configurationItem.configuration.instanceType) {
          return 'COMPLIANT';
      }
      return 'NON_COMPLIANT';
  }
  \<close>
\<close>

definition evaluateCompliance :: "jsval \<Rightarrow> jsval \<Rightarrow> exn + jsval" where
  "evaluateCompliance configurationItem ruleParameters =
     bindE (get_prop configurationItem ''resourceType'') (\<lambda>resourceType.
       if \<not> strict_eq resourceType (JStr ''AWS::EC2::Instance'') then Inr (JStr ''NOT_APPLICABLE'')
       else
         bindE (get_prop ruleParameters ''desiredInstanceType'') (\<lambda>desired.
         bindE (get_prop configurationItem ''configuration'') (\<lambda>configuration.
         bindE (get_prop configuration ''instanceType'') (\<lambda>instanceType.
           if strict_eq desired instanceType then Inr (JStr ''COMPLIANT'')
           else Inr (JStr ''NON_COMPLIANT'')))))"

section \<open>Input validation and the applicability filter\<close>

text \<open>
  \<^verbatim>\<open>
  function checkDefined(reference, referenceName) {
      if (!reference) {
          throw new Error(`Error: ${referenceName} is not defined`);
      }
      return reference;
  }
  \<close>
\<close>

definition checkDefined :: "jsval \<Rightarrow> string \<Rightarrow> exn + jsval" where
  "checkDefined reference referenceName =
     (if \<not> truthy reference then Inl (JsError (''Error: '' @ referenceName @ '' is not defined''))
      else Inr reference)"

definition isOverSizedChangeNotification :: "jsval \<Rightarrow> exn + bool" where
  "isOverSizedChangeNotification messageType =
     bindE (checkDefined messageType ''messageType'') (\<lambda>_.
       Inr (strict_eq messageType (JStr ''OversizedConfigurationItemChangeNotification'')))"

definition isScheduledNotification :: "jsval \<Rightarrow> exn + bool" where
  "isScheduledNotification messageType =
     bindE (checkDefined messageType ''messageType'') (\<lambda>_.
       Inr (strict_eq messageType (JStr ''ScheduledNotification'')))"

text \<open>
  \<^verbatim>\<open>
  function isApplicable(configurationItem, event) {
      checkDefined(configurationItem, 'configurationItem');
      checkDefined(event, 'event');
      const status = configurationItem.configurationItemStatus;
      const eventLeftScope = event.eventLeftScope;
      return (status === 'OK' || status === 'ResourceDiscovered') && eventLeftScope === false;
  }
  \<close>
\<close>

definition isApplicable :: "jsval \<Rightarrow> jsval \<Rightarrow> exn + bool" where
  "isApplicable configurationItem event =
     bindE (checkDefined configurationItem ''configurationItem'') (\<lambda>_.
     bindE (checkDefined event ''event'') (\<lambda>_.
     bindE (get_prop configurationItem ''configurationItemStatus'') (\<lambda>status.
     bindE (get_prop event ''eventLeftScope'') (\<lambda>eventLeftScope.
       Inr ((strict_eq status (JStr ''OK'') \<or> strict_eq status (JStr ''ResourceDiscovered''))
            \<and> strict_eq eventLeftScope (JBool False))))))"

section \<open>The environment, effects and runs\<close>

text \<open>
  The request of \<^verbatim>\<open>config.getResourceConfigHistory\<close>:
  \<^verbatim>\<open>{ resourceType, resourceId, laterTime: new Date(configurationCaptureTime), limit: 1 }\<close>.
  \<open>laterTime_arg\<close> is the argument of \<^verbatim>\<open>new Date\<close>.
\<close>

record hist_req =
  req_resourceType :: jsval
  req_resourceId :: jsval
  laterTime_arg :: jsval
  req_limit :: int

text \<open>
  What the handler does not define itself is a parameter: the built-ins \<^verbatim>\<open>JSON.parse\<close>
  (a SyntaxError is \<open>Inl\<close>), \<^verbatim>\<open>JSON.stringify\<close> and the conversion to a number that
  \<^verbatim>\<open><\<close> and \<^verbatim>\<open>>\<close> apply to a string or an object (\<open>None\<close> is NaN), and the two calls of
  the AWS SDK client, each giving the pair \<^verbatim>\<open>(err, data)\<close> that the SDK passes to the callback.
\<close>

record env =
  JSON_parse :: "jsval \<Rightarrow> exn + jsval"
  JSON_stringify :: "jsval \<Rightarrow> jsval"
  ToNumber :: "jsval \<Rightarrow> int option"
  getResourceConfigHistory :: "hist_req \<Rightarrow> jsval \<times> jsval"
  putEvaluations :: "jsval \<Rightarrow> jsval \<times> jsval"

text \<open>
  The effects of an invocation, in the order they happen: \<^verbatim>\<open>console.info\<close>, the two service
  calls with their requests, and the calls of the Lambda callback with its two arguments
  (an argument that is left out is undefined).
\<close>

datatype effect =
    Log jsval
  | HistoryCall hist_req
  | PutCall jsval
  | Callback jsval jsval

text \<open>
  A run is the list of effects and how the code ended: with an exception that nothing
  catches (\<open>Inl\<close>), or by returning. The callbacks the SDK calls later are run in place: an
  exception thrown inside one is uncaught as well.
\<close>

type_synonym 'a run = "effect list \<times> (exn + 'a)"

definition returnW :: "'a \<Rightarrow> 'a run" where
  "returnW x = ([], Inr x)"

definition liftE :: "exn + 'a \<Rightarrow> 'a run" where
  "liftE r = ([], r)"

definition emit :: "effect \<Rightarrow> unit run" where
  "emit e = ([e], Inr ())"

definition bindW :: "'a run \<Rightarrow> ('a \<Rightarrow> 'b run) \<Rightarrow> 'b run" where
  "bindW m f =
     (case m of
        (t, Inl e) \<Rightarrow> (t, Inl e)
      | (t, Inr a) \<Rightarrow> (case f a of (t', r) \<Rightarrow> (t @ t', r)))"

text \<open>\<^verbatim>\<open>if (c) { m }\<close> with no else branch.\<close>

definition whenW :: "bool \<Rightarrow> unit run \<Rightarrow> unit run" where
  "whenW c m = (if c then m else returnW ())"

text \<open>The callback that Lambda hands to the handler.\<close>

definition lambda_callback :: "jsval \<Rightarrow> jsval \<Rightarrow> unit run" where
  "lambda_callback err data = emit (Callback err data)"

text \<open>The number that \<^verbatim>\<open><\<close> and \<^verbatim>\<open>>\<close> compare a value as; a comparison with NaN is false.\<close>

definition to_num :: "env \<Rightarrow> jsval \<Rightarrow> int option" where
  "to_num E v =
     (case v of
        JNum n \<Rightarrow> Some n
      | JUndefined \<Rightarrow> None
      | JNull \<Rightarrow> Some 0
      | JBool b \<Rightarrow> Some (if b then 1 else 0)
      | _ \<Rightarrow> ToNumber E v)"

definition js_lt :: "env \<Rightarrow> jsval \<Rightarrow> jsval \<Rightarrow> bool" where
  "js_lt E a b =
     (case to_num E a of
        None \<Rightarrow> False
      | Some x \<Rightarrow> (case to_num E b of None \<Rightarrow> False | Some y \<Rightarrow> x < y))"

section \<open>The snapshot resolver\<close>

text \<open>
  \<^verbatim>\<open>
  function getConfiguration(resourceType, resourceId, configurationCaptureTime, callback) {
      config.getResourceConfigHistory({ resourceType, resourceId,
              laterTime: new Date(configurationCaptureTime), limit: 1 }, (err, data) => {
          if (err) {
              callback(err, null);
          }
          const configurationItem = data.configurationItems[0];
          callback(null, configurationItem);
      });
  }
  \<close>
  The branch on \<^verbatim>\<open>err\<close> does not return: the code after it runs in both cases.
\<close>

definition getConfiguration ::
  "env \<Rightarrow> jsval \<Rightarrow> jsval \<Rightarrow> jsval \<Rightarrow> (jsval \<Rightarrow> jsval \<Rightarrow> unit run) \<Rightarrow> unit run" where
  "getConfiguration E resourceType resourceId configurationCaptureTime callback =
     (let request = \<lparr>req_resourceType = resourceType, req_resourceId = resourceId,
                      laterTime_arg = configurationCaptureTime, req_limit = 1\<rparr>
      in bindW (emit (HistoryCall request)) (\<lambda>_.
           case getResourceConfigHistory E request of (err, data) \<Rightarrow>
             bindW (whenW (truthy err) (callback err JNull)) (\<lambda>_.
             bindW (liftE (bindE (get_prop data ''configurationItems'') (\<lambda>items. get_index items 0)))
               (\<lambda>configurationItem.
             callback JNull configurationItem))))"

text \<open>\<^verbatim>\<open>{}.hasOwnProperty.call(v, k)\<close> for a name \<open>k\<close> that is neither \<^verbatim>\<open>length\<close> nor an index.\<close>

fun has_own :: "jsval \<Rightarrow> string \<Rightarrow> exn + bool" where
  "has_own JUndefined k = Inl TypeError"
| "has_own JNull k = Inl TypeError"
| "has_own (JObj ps) k = Inr (k \<in> fst ` set ps)"
| "has_own (JArr xs ps) k = Inr (k \<in> fst ` set ps)"
| "has_own (JStringObj s ps) k = Inr (k \<in> fst ` set ps)"
| "has_own v k = Inr False"

text \<open>The element \<open>i\<close> of a value, replaced by the object that an assignment to one of its
  properties has changed. In the code the element is changed in place.\<close>

fun put_index :: "jsval \<Rightarrow> nat \<Rightarrow> jsval \<Rightarrow> jsval" where
  "put_index (JArr xs ps) i w = JArr (xs[i := w]) ps"
| "put_index (JObj ps) i w = JObj (AList.update (dec i) w ps)"
| "put_index (JStringObj s ps) i w = JStringObj s (AList.update (dec i) w ps)"
| "put_index v i w = v"

text \<open>
  \<^verbatim>\<open>
  for (let i = 0; i < apiConfiguration.relationships.length; i++) {
      apiConfiguration.relationships[i].name = apiConfiguration.relationships[i].relationshipName;
  }
  \<close>
  The loop, from index \<open>i\<close> on; the length is read again at every turn, as the code does.
\<close>

function relationships_loop :: "env \<Rightarrow> jsval \<Rightarrow> nat \<Rightarrow> exn + jsval" where
  "relationships_loop E relationships i =
     (case get_prop relationships ''length'' of
        Inl e \<Rightarrow> Inl e
      | Inr len \<Rightarrow>
          if js_lt E (JNum (int i)) len then
            (case bindE (get_index relationships i) (\<lambda>r.
                  bindE (get_prop r ''relationshipName'') (\<lambda>relationshipName.
                    set_prop r ''name'' relationshipName)) of
               Inl e \<Rightarrow> Inl e
             | Inr r' \<Rightarrow> relationships_loop E (put_index relationships i r') (Suc i))
          else Inr relationships)"
  by pat_completeness auto
termination
proof (relation "measure (\<lambda>(E, rels, i).
         (case to_num E (read_prop rels ''length'') of Some n \<Rightarrow> nat n | None \<Rightarrow> 0) - i)",
       goal_cases)
  case 1
  show ?case by simp
next
  case (2 E relationships i len r')
  have not_length: "dec i \<noteq> ''length''"
  proof
    assume eq: "dec i = ''length''"
    have "last (dec i) = char_of (48 + i mod 10)"
      by (subst dec.simps) simp
    with eq have "char_of (48 + i mod 10) = CHR ''h''" by simp
    then have "of_char (char_of (48 + i mod 10) :: char) = (of_char (CHR ''h'') :: nat)" by simp
    then have "(48 + i mod 10) mod 256 = (104::nat)" by simp
    then show False by arith
  qed
  have same: "read_prop (put_index relationships i r') ''length'' = read_prop relationships ''length''"
    using not_length by (cases relationships) (auto simp add: lookup_def update_conv')
  from 2(1,2) have "int i < (case to_num E (read_prop relationships ''length'') of Some n \<Rightarrow> n | None \<Rightarrow> 0)"
    by (auto simp: get_prop_def js_lt_def to_num_def split: if_splits option.splits)
  then show ?case
    by (auto simp: same split: option.splits)
qed

declare relationships_loop.simps [simp del]

text \<open>
  \<^verbatim>\<open>
  function convertApiConfiguration(apiConfiguration) {
      apiConfiguration.awsAccountId = apiConfiguration.accountId;
      apiConfiguration.ARN = apiConfiguration.arn;
      apiConfiguration.configurationStateMd5Hash = apiConfiguration.configurationItemMD5Hash;
      apiConfiguration.configurationItemVersion = apiConfiguration.version;
      apiConfiguration.configuration = JSON.parse(apiConfiguration.configuration);
      if ({}.hasOwnProperty.call(apiConfiguration, 'relationships')) {
          for (...) { ... }
      }
      return apiConfiguration;
  }
  \<close>
  The object is changed in place; the embedding returns the changed object.
\<close>

definition convertApiConfiguration :: "env \<Rightarrow> jsval \<Rightarrow> exn + jsval" where
  "convertApiConfiguration E apiConfiguration =
     bindE (get_prop apiConfiguration ''accountId'') (\<lambda>accountId.
     bindE (set_prop apiConfiguration ''awsAccountId'' accountId) (\<lambda>a1.
     bindE (get_prop a1 ''arn'') (\<lambda>arn.
     bindE (set_prop a1 ''ARN'' arn) (\<lambda>a2.
     bindE (get_prop a2 ''configurationItemMD5Hash'') (\<lambda>md5.
     bindE (set_prop a2 ''configurationStateMd5Hash'' md5) (\<lambda>a3.
     bindE (get_prop a3 ''version'') (\<lambda>version.
     bindE (set_prop a3 ''configurationItemVersion'' version) (\<lambda>a4.
     bindE (get_prop a4 ''configuration'') (\<lambda>configuration.
     bindE (JSON_parse E configuration) (\<lambda>parsed.
     bindE (set_prop a4 ''configuration'' parsed) (\<lambda>a5.
     bindE (has_own a5 ''relationships'') (\<lambda>own.
       if own then
         bindE (get_prop a5 ''relationships'') (\<lambda>relationships.
         bindE (relationships_loop E relationships 0) (\<lambda>relationships'.
           set_prop a5 ''relationships'' relationships'))
       else Inr a5))))))))))))"

text \<open>
  \<^verbatim>\<open>
  function getConfigurationItem(invokingEvent, callback) {
      checkDefined(invokingEvent, 'invokingEvent');
      if (isOverSizedChangeNotification(invokingEvent.messageType)) {
          const configurationItemSummary =
              checkDefined(invokingEvent.configurationItemSummary, 'configurationItemSummary');
          getConfiguration(configurationItemSummary.resourceType, configurationItemSummary.resourceId,
                  configurationItemSummary.configurationItemCaptureTime, (err, apiConfigurationItem) => {
              if (err) {
                  callback(err);
              }
              const configurationItem = convertApiConfiguration(apiConfigurationItem);
              callback(null, configurationItem);
          });
      } else if (isScheduledNotification(invokingEvent.messageType)) {
        callback(null, null)
      } else {
          checkDefined(invokingEvent.configurationItem, 'configurationItem');
          callback(null, invokingEvent.configurationItem);
      }
  }
  \<close>
\<close>

definition getConfigurationItem ::
  "env \<Rightarrow> jsval \<Rightarrow> (jsval \<Rightarrow> jsval \<Rightarrow> unit run) \<Rightarrow> unit run" where
  "getConfigurationItem E invokingEvent callback =
     bindW (liftE (checkDefined invokingEvent ''invokingEvent'')) (\<lambda>_.
     bindW (liftE (bindE (get_prop invokingEvent ''messageType'') isOverSizedChangeNotification))
       (\<lambda>oversized.
       if oversized then
         bindW (liftE (bindE (get_prop invokingEvent ''configurationItemSummary'') (\<lambda>s.
                         checkDefined s ''configurationItemSummary''))) (\<lambda>configurationItemSummary.
         bindW (liftE (get_prop configurationItemSummary ''resourceType'')) (\<lambda>resourceType.
         bindW (liftE (get_prop configurationItemSummary ''resourceId'')) (\<lambda>resourceId.
         bindW (liftE (get_prop configurationItemSummary ''configurationItemCaptureTime''))
           (\<lambda>captureTime.
         getConfiguration E resourceType resourceId captureTime (\<lambda>err apiConfigurationItem.
           bindW (whenW (truthy err) (callback err JUndefined)) (\<lambda>_.
           bindW (liftE (convertApiConfiguration E apiConfigurationItem)) (\<lambda>configurationItem.
             callback JNull configurationItem)))))))
       else
         bindW (liftE (bindE (get_prop invokingEvent ''messageType'') isScheduledNotification))
           (\<lambda>scheduled.
           if scheduled then callback JNull JNull
           else
             bindW (liftE (bindE (get_prop invokingEvent ''configurationItem'') (\<lambda>c.
                             checkDefined c ''configurationItem''))) (\<lambda>_.
             bindW (liftE (get_prop invokingEvent ''configurationItem'')) (\<lambda>configurationItem.
               callback JNull configurationItem)))))"

section \<open>The evaluator adapter\<close>

text \<open>
  \<^verbatim>\<open>
  function rule_handler(event, context, callback) {
      console.info(event);
      const invokingEvent = JSON.parse(event.invokingEvent);
      const configItem = invokingEvent.configurationItem;
      const ruleParameters = JSON.parse(event.ruleParameters);
      callback(null, evaluateCompliance(configItem, ruleParameters));
  }
  \<close>
  The file is a template whose \<^verbatim>\<open>evaluateCompliance\<close> the rule's author replaces, so the
  evaluator is a parameter here; \<open>evaluateCompliance\<close> above is the one the file ships.
  \<^verbatim>\<open>context\<close> is never used and is left out.
\<close>

definition rule_handler ::
  "(jsval \<Rightarrow> jsval \<Rightarrow> exn + jsval) \<Rightarrow> env \<Rightarrow> jsval \<Rightarrow> (jsval \<Rightarrow> jsval \<Rightarrow> 'a run) \<Rightarrow> 'a run" where
  "rule_handler evaluate E event callback =
     bindW (emit (Log event)) (\<lambda>_.
     bindW (liftE (bindE (get_prop event ''invokingEvent'') (JSON_parse E))) (\<lambda>invokingEvent.
     bindW (liftE (get_prop invokingEvent ''configurationItem'')) (\<lambda>configItem.
     bindW (liftE (bindE (get_prop event ''ruleParameters'') (JSON_parse E))) (\<lambda>ruleParameters.
     bindW (liftE (evaluate configItem ruleParameters)) (\<lambda>compliance.
       callback JNull compliance)))))"

section \<open>The request that reports the evaluation\<close>

fun typeof_string :: "jsval \<Rightarrow> bool" where
  "typeof_string (JStr s) = True"
| "typeof_string v = False"

fun instanceof_String :: "jsval \<Rightarrow> bool" where
  "instanceof_String (JStringObj s ps) = True"
| "instanceof_String v = False"

fun instanceof_Array :: "jsval \<Rightarrow> bool" where
  "instanceof_Array (JArr xs ps) = True"
| "instanceof_Array v = False"

text \<open>
  The record that the first and the last branch build:
  \<^verbatim>\<open>
  { ComplianceResourceType: configurationItem.resourceType,
    ComplianceResourceId: configurationItem.resourceId,
    ComplianceType: <label>,
    OrderingTimestamp: configurationItem.configurationItemCaptureTime }
  \<close>
\<close>

definition evaluation_of :: "jsval \<Rightarrow> jsval \<Rightarrow> exn + jsval" where
  "evaluation_of configurationItem label =
     bindE (get_prop configurationItem ''resourceType'') (\<lambda>resourceType.
     bindE (get_prop configurationItem ''resourceId'') (\<lambda>resourceId.
     bindE (get_prop configurationItem ''configurationItemCaptureTime'') (\<lambda>captureTime.
       Inr (JObj [(''ComplianceResourceType'', resourceType),
                  (''ComplianceResourceId'', resourceId),
                  (''ComplianceType'', label),
                  (''OrderingTimestamp'', captureTime)]))))"

text \<open>
  Lines 144 and 156 to 191 of the handler: \<^verbatim>\<open>const putEvaluationsRequest = {}\<close> and the three
  branches on the shape of \<^verbatim>\<open>compliance\<close>.
  \<^verbatim>\<open>
  if (typeof compliance === 'string' || compliance instanceof String){
    putEvaluationsRequest.Evaluations = [ { ... ComplianceType: compliance, ... } ];
  } else if (compliance instanceof Array){
    fields = ['ComplianceResourceType', 'ComplianceResourceId', 'ComplianceType', 'OrderingTimestamp']
    for (var i = 0; i < compliace.length; i++) {
      compliance_result = compliance[i];
      var missing_fields = false;
      for (var j = 0; j < fields.length){
        if (!compliance_result[fields[j]){
          console.info("Missing " + fields[j] + " from custom evaluation.")
          missing_fields = true;
        }
      }
      if (!missing_fields){
        putEvaluationsRequest.Evaluations.append(compliance_result);
      }
    }
  } else {
    putEvaluationsRequest.Evaluations = [ { ... ComplianceType: 'NOT_APPLICABLE', ... } ];
  }
  \<close>
  The file is in strict mode and declares no variable \<^verbatim>\<open>fields\<close>, so the first statement of
  the array branch, an assignment to an undeclared name, throws a ReferenceError: nothing
  after it in that branch runs. What follows could not run either: \<^verbatim>\<open>compliace\<close> is not
  declared, arrays have no \<^verbatim>\<open>append\<close>, \<^verbatim>\<open>Evaluations\<close> is never initialised on this
  branch, and the headers of the inner \<^verbatim>\<open>for\<close> and of its \<^verbatim>\<open>if\<close> are not well-formed (a
  JavaScript engine refuses the file for them when it loads it). The embedding gives every
  other statement of the file the meaning it has as written; it does not depend on how the
  two headers are closed, since no run reaches them.
\<close>

definition putEvaluationsRequest_of :: "jsval \<Rightarrow> jsval \<Rightarrow> exn + jsval" where
  "putEvaluationsRequest_of compliance configurationItem =
     (if typeof_string compliance \<or> instanceof_String compliance then
        bindE (evaluation_of configurationItem compliance) (\<lambda>evaluation.
          set_prop (JObj []) ''Evaluations'' (JArr [evaluation] []))
      else if instanceof_Array compliance then Inl ReferenceError
      else
        bindE (evaluation_of configurationItem (JStr ''NOT_APPLICABLE'')) (\<lambda>evaluation.
          set_prop (JObj []) ''Evaluations'' (JArr [evaluation] [])))"

section \<open>The report submitter\<close>

text \<open>
  \<^verbatim>\<open>
  putEvaluationsRequest.ResultToken = event.resultToken;
  config.putEvaluations(putEvaluationsRequest, (error, data) => {
      if (error) {
          callback(error, null);
      } else if (data.FailedEvaluations.length > 0) {
          callback(JSON.stringify(data), null);
      } else {
          callback(null, data);
      }
  });
  \<close>
\<close>

definition reportEvaluations ::
  "env \<Rightarrow> jsval \<Rightarrow> jsval \<Rightarrow> (jsval \<Rightarrow> jsval \<Rightarrow> unit run) \<Rightarrow> unit run" where
  "reportEvaluations E putEvaluationsRequest event callback =
     bindW (liftE (bindE (get_prop event ''resultToken'') (\<lambda>resultToken.
                     set_prop putEvaluationsRequest ''ResultToken'' resultToken))) (\<lambda>request.
     bindW (emit (PutCall request)) (\<lambda>_.
       case putEvaluations E request of (error, data) \<Rightarrow>
         if truthy error then callback error JNull
         else
           bindW (liftE (bindE (get_prop data ''FailedEvaluations'') (\<lambda>failed.
                           get_prop failed ''length''))) (\<lambda>len.
             if js_lt E (JNum 0) len then callback (JSON_stringify E data) JNull
             else callback JNull data)))"

section \<open>The handler\<close>

text \<open>
  The callback that \<^verbatim>\<open>lambda_handler\<close> gives to \<^verbatim>\<open>getConfigurationItem\<close>:
  \<^verbatim>\<open>
  (err, configurationItem) => {
      if (err) {
          callback(err);
      }
      if (!configurationItem){
        callback("RDK utility class does not yet support Scheduled Notifications.")
      }
      let compliance = 'NOT_APPLICABLE';
      const putEvaluationsRequest = {};
      if (isApplicable(configurationItem, event)) {
          invokingEvent.configurationItem = configurationItem;
          event.invokingEvent = JSON.stringify(invokingEvent);
          rule_handler(event, context, (err, computedCompliance) => {
              if (err) {
                  callback(err);
              }
              compliance = computedCompliance;
          });
      }
      ... the request, the result token and the submission, as above ...
  }
  \<close>
  Neither of the two branches on an error returns. The assignment to
  \<^verbatim>\<open>event.invokingEvent\<close> changes the event that the later read of
  \<^verbatim>\<open>event.resultToken\<close> sees, so the changed event is passed on.
\<close>

definition on_configurationItem ::
  "(jsval \<Rightarrow> jsval \<Rightarrow> exn + jsval) \<Rightarrow> env \<Rightarrow> jsval \<Rightarrow> jsval \<Rightarrow> (jsval \<Rightarrow> jsval \<Rightarrow> unit run)
     \<Rightarrow> jsval \<Rightarrow> jsval \<Rightarrow> unit run" where
  "on_configurationItem evaluate E event invokingEvent callback err configurationItem =
     bindW (whenW (truthy err) (callback err JUndefined)) (\<lambda>_.
     bindW (whenW (\<not> truthy configurationItem)
              (callback (JStr ''RDK utility class does not yet support Scheduled Notifications.'')
                 JUndefined)) (\<lambda>_.
     bindW (liftE (isApplicable configurationItem event)) (\<lambda>applicable.
     bindW (if applicable then
              bindW (liftE (set_prop invokingEvent ''configurationItem'' configurationItem))
                (\<lambda>invokingEvent'.
              bindW (liftE (set_prop event ''invokingEvent'' (JSON_stringify E invokingEvent')))
                (\<lambda>event'.
              bindW (rule_handler evaluate E event' (\<lambda>err computedCompliance.
                       bindW (whenW (truthy err) (callback err JUndefined)) (\<lambda>_.
                         returnW computedCompliance))) (\<lambda>compliance.
                returnW (compliance, event'))))
            else returnW (JStr ''NOT_APPLICABLE'', event)) (\<lambda>(compliance, event').
     bindW (liftE (putEvaluationsRequest_of compliance configurationItem)) (\<lambda>putEvaluationsRequest.
       reportEvaluations E putEvaluationsRequest event' callback)))))"

text \<open>
  \<^verbatim>\<open>
  exports.lambda_handler = (event, context, callback) => {
      checkDefined(event, 'event');
      const invokingEvent = JSON.parse(event.invokingEvent);
      const ruleParameters = JSON.parse(event.ruleParameters);
      getConfigurationItem(invokingEvent, (err, configurationItem) => { ... });
  };
  \<close>
  This is the second assignment to \<^verbatim>\<open>exports.lambda_handler\<close>, the one in force.
\<close>

definition lambda_handler ::
  "(jsval \<Rightarrow> jsval \<Rightarrow> exn + jsval) \<Rightarrow> env \<Rightarrow> jsval \<Rightarrow> (jsval \<Rightarrow> jsval \<Rightarrow> unit run) \<Rightarrow> unit run" where
  "lambda_handler evaluate E event callback =
     bindW (liftE (checkDefined event ''event'')) (\<lambda>_.
     bindW (liftE (bindE (get_prop event ''invokingEvent'') (JSON_parse E))) (\<lambda>invokingEvent.
     bindW (liftE (bindE (get_prop event ''ruleParameters'') (JSON_parse E))) (\<lambda>ruleParameters.
       getConfigurationItem E invokingEvent
         (on_configurationItem evaluate E event invokingEvent callback))))"

text \<open>What a run shows to the outside: the requests sent to the tracking service, and the
  calls of the Lambda callback.\<close>

fun put_calls :: "effect list \<Rightarrow> jsval list" where
  "put_calls [] = []"
| "put_calls (PutCall r # t) = r # put_calls t"
| "put_calls (e # t) = put_calls t"

fun callbacks :: "effect list \<Rightarrow> (jsval \<times> jsval) list" where
  "callbacks [] = []"
| "callbacks (Callback err data # t) = (err, data) # callbacks t"
| "callbacks (e # t) = callbacks t"

text \<open>Two properties of runs, used to state what the handler sends: a run sends at most one
  request, which holds one evaluation and the event's result token; a run ends with an
  exception and sends nothing.\<close>

definition reports_once :: "jsval \<Rightarrow> 'a run \<Rightarrow> bool" where
  "reports_once event r =
     (put_calls (fst r) = []
      \<or> (\<exists>evaluation. put_calls (fst r) =
            [JObj [(''Evaluations'', JArr [evaluation] []),
                   (''ResultToken'', read_prop event ''resultToken'')]]))"

definition fails_quietly :: "'a run \<Rightarrow> bool" where
  "fails_quietly r = (put_calls (fst r) = [] \<and> (\<exists>e. snd r = Inl e))"

section \<open>Example inputs\<close>

text \<open>
  A configuration item of an EC2 instance, an invocation payload, and an environment whose
  \<^verbatim>\<open>JSON.parse\<close> knows two texts: \<open>INV\<close> stands for the text of the invoking event \<open>iv\<close>,
  \<open>PARAMS\<close> for the text of the rule parameters. \<^verbatim>\<open>JSON.stringify\<close> gives \<open>INV\<close> back, the
  history service answers \<open>history\<close> and the tracking service answers \<open>answer\<close>.
\<close>

definition example_item :: jsval where
  "example_item =
     JObj [(''resourceType'', JStr ''AWS::EC2::Instance''),
           (''resourceId'', JStr ''i-0abc''),
           (''configurationItemStatus'', JStr ''OK''),
           (''configurationItemCaptureTime'', JStr ''2017-01-01T00:00:00.000Z''),
           (''configuration'', JObj [(''instanceType'', JStr ''t2.micro'')])]"

definition example_event :: jsval where
  "example_event =
     JObj [(''invokingEvent'', JStr ''INV''),
           (''ruleParameters'', JStr ''PARAMS''),
           (''resultToken'', JStr ''token-1''),
           (''eventLeftScope'', JBool False)]"

definition example_env :: "jsval \<Rightarrow> jsval \<times> jsval \<Rightarrow> jsval \<times> jsval \<Rightarrow> env" where
  "example_env iv history answer =
     \<lparr>JSON_parse = (\<lambda>v. if v = JStr ''INV'' then Inr iv
                         else if v = JStr ''PARAMS''
                         then Inr (JObj [(''desiredInstanceType'', JStr ''t2.micro'')])
                         else Inl SyntaxError),
      JSON_stringify = (\<lambda>v. JStr ''INV''),
      ToNumber = (\<lambda>v. None),
      getResourceConfigHistory = (\<lambda>request. history),
      putEvaluations = (\<lambda>request. answer)\<rparr>"

definition change_notification :: jsval where
  "change_notification =
     JObj [(''messageType'', JStr ''ConfigurationItemChangeNotification''),
           (''configurationItem'', example_item)]"

definition accepted :: "jsval \<times> jsval" where
  "accepted = (JNull, JObj [(''FailedEvaluations'', JArr [] [])])"

definition no_history :: "jsval \<times> jsval" where
  "no_history = (JNull, JObj [(''configurationItems'', JArr [] [])])"

section \<open>Basic facts\<close>

lemma strict_eq_JStr [simp]: "strict_eq v (JStr s) = (v = JStr s)"
  by (auto simp: strict_eq_def)

lemma strict_eq_JBool [simp]: "strict_eq v (JBool b) = (v = JBool b)"
  by (auto simp: strict_eq_def)

lemma get_prop_truthy: "truthy v \<Longrightarrow> get_prop v k = Inr (read_prop v k)"
  by (cases v) (simp_all add: get_prop_def)

lemma get_prop_defined:
  "v \<noteq> JUndefined \<Longrightarrow> v \<noteq> JNull \<Longrightarrow> get_prop v k = Inr (read_prop v k)"
  by (simp add: get_prop_def)

lemma bindE_Inr [simp]: "bindE (Inr a) f = f a"
  by (simp add: bindE_def)

lemma bindE_Inl [simp]: "bindE (Inl e) f = Inl e"
  by (simp add: bindE_def)

lemma checkDefined_truthy: "truthy v \<Longrightarrow> checkDefined v n = Inr v"
  by (simp add: checkDefined_def)

lemma checkDefined_falsy:
  "\<not> truthy v \<Longrightarrow> checkDefined v n = Inl (JsError (''Error: '' @ n @ '' is not defined''))"
  by (simp add: checkDefined_def)

lemma bindW_liftE_Inr [simp]: "bindW (liftE (Inr a)) f = f a"
  by (simp add: bindW_def liftE_def split: prod.splits)

lemma bindW_liftE_Inl [simp]: "bindW (liftE (Inl e)) f = ([], Inl e)"
  by (simp add: bindW_def liftE_def)

lemma bindW_returnW [simp]: "bindW (returnW a) f = f a"
  by (simp add: bindW_def returnW_def split: prod.splits)

lemma bindW_emit [simp]: "bindW (emit e) f = (e # fst (f ()), snd (f ()))"
  by (simp add: bindW_def emit_def split: prod.splits)

lemma emit_parts [simp]: "fst (emit e) = [e]" "snd (emit e) = Inr ()"
  by (simp_all add: emit_def)

lemma returnW_parts [simp]: "fst (returnW a) = []" "snd (returnW a) = Inr a"
  by (simp_all add: returnW_def)

lemma liftE_parts [simp]: "fst (liftE r) = []" "snd (liftE r) = r"
  by (simp_all add: liftE_def)

lemma bindW_continue [simp]: "bindW (t, Inr a) f = (t @ fst (f a), snd (f a))"
  by (simp add: bindW_def split: prod.splits)

lemma bindW_throw [simp]: "bindW (t, Inl e) f = (t, Inl e)"
  by (simp add: bindW_def)

lemma whenW_simps [simp]: "whenW True m = m" "whenW False m = returnW ()"
  by (simp_all add: whenW_def)

lemma has_prop_truthy: "read_prop v k = JStr s \<Longrightarrow> s \<noteq> [] \<Longrightarrow> truthy v"
  by (cases v) (auto split: if_splits)

lemma has_prop_defined: "read_prop v k = JArr xs ps \<Longrightarrow> v \<noteq> JUndefined \<and> v \<noteq> JNull"
  by (cases v) auto

lemma to_num_JNum [simp]: "to_num E (JNum n) = Some n"
  by (simp add: to_num_def)

section \<open>The applicability filter\<close>

text \<open>
  Claim C1. For a snapshot and an event that are defined (anything but undefined, null,
  false, 0 and the empty string, on which \<open>checkDefined\<close> throws), \<open>isApplicable\<close> returns
  true exactly when the snapshot's \<^verbatim>\<open>configurationItemStatus\<close> is the string \<^verbatim>\<open>OK\<close> or
  \<^verbatim>\<open>ResourceDiscovered\<close> and the event's \<^verbatim>\<open>eventLeftScope\<close> is the boolean false; in every
  other case it returns false.
\<close>

theorem isApplicable_iff:
  assumes "truthy configurationItem" and "truthy event"
  shows "isApplicable configurationItem event =
           Inr ((read_prop configurationItem ''configurationItemStatus'' = JStr ''OK''
                 \<or> read_prop configurationItem ''configurationItemStatus'' = JStr ''ResourceDiscovered'')
                \<and> read_prop event ''eventLeftScope'' = JBool False)"
  using assms by (simp add: isApplicable_def checkDefined_truthy get_prop_truthy)

theorem isApplicable_iff_witness:
  "isApplicable (JObj [(''configurationItemStatus'', JStr ''OK'')])
                (JObj [(''eventLeftScope'', JBool False)]) = Inr True
   \<and> isApplicable (JObj [(''configurationItemStatus'', JStr ''ResourceDeleted'')])
                  (JObj [(''eventLeftScope'', JBool False)]) = Inr False
   \<and> isApplicable (JObj [(''configurationItemStatus'', JStr ''ResourceDiscovered'')])
                  (JObj [(''eventLeftScope'', JBool True)]) = Inr False
   \<and> isApplicable (JObj [(''configurationItemStatus'', JStr ''OK'')]) (JObj []) = Inr False"
proof -
  have t: "truthy (JObj ps)" for ps by simp
  show ?thesis
    using isApplicable_iff [OF t t, of "[(''configurationItemStatus'', JStr ''OK'')]"
                                      "[(''eventLeftScope'', JBool False)]"]
      isApplicable_iff [OF t t, of "[(''configurationItemStatus'', JStr ''ResourceDeleted'')]"
                                  "[(''eventLeftScope'', JBool False)]"]
      isApplicable_iff [OF t t, of "[(''configurationItemStatus'', JStr ''ResourceDiscovered'')]"
                                  "[(''eventLeftScope'', JBool True)]"]
      isApplicable_iff [OF t t, of "[(''configurationItemStatus'', JStr ''OK'')]" "[]"]
    by (simp add: lookup_def)
qed

section \<open>The example evaluator\<close>

text \<open>
  Claim C10, as the code has it. For a configuration item and a parameter mapping (two
  objects): the evaluator returns \<^verbatim>\<open>NOT_APPLICABLE\<close> when the item's \<^verbatim>\<open>resourceType\<close> is not
  \<^verbatim>\<open>AWS::EC2::Instance\<close>; otherwise, provided the item's \<^verbatim>\<open>configuration\<close> is neither null
  nor undefined, it returns \<^verbatim>\<open>COMPLIANT\<close> when the parameters' \<^verbatim>\<open>desiredInstanceType\<close> is
  strictly equal to the configuration's \<^verbatim>\<open>instanceType\<close>, and \<^verbatim>\<open>NON_COMPLIANT\<close> when it is
  not.
\<close>

theorem evaluateCompliance_cases:
  assumes "lookup c ''resourceType'' = JStr ''AWS::EC2::Instance'' \<Longrightarrow>
             lookup c ''configuration'' \<noteq> JUndefined \<and> lookup c ''configuration'' \<noteq> JNull"
  shows "evaluateCompliance (JObj c) (JObj p) =
           Inr (JStr (if lookup c ''resourceType'' \<noteq> JStr ''AWS::EC2::Instance'' then ''NOT_APPLICABLE''
                      else if strict_eq (lookup p ''desiredInstanceType'')
                                (read_prop (lookup c ''configuration'') ''instanceType'')
                      then ''COMPLIANT'' else ''NON_COMPLIANT''))"
  using assms by (simp add: evaluateCompliance_def get_prop_def)

theorem evaluateCompliance_cases_witness:
  "evaluateCompliance example_item (JObj [(''desiredInstanceType'', JStr ''t2.micro'')])
     = Inr (JStr ''COMPLIANT'')
   \<and> evaluateCompliance example_item (JObj [(''desiredInstanceType'', JStr ''m4.large'')])
     = Inr (JStr ''NON_COMPLIANT'')
   \<and> evaluateCompliance (JObj [(''resourceType'', JStr ''AWS::S3::Bucket'')]) (JObj [])
     = Inr (JStr ''NOT_APPLICABLE'')"
proof -
  let ?c = "[(''resourceType'', JStr ''AWS::EC2::Instance''),
             (''resourceId'', JStr ''i-0abc''),
             (''configurationItemStatus'', JStr ''OK''),
             (''configurationItemCaptureTime'', JStr ''2017-01-01T00:00:00.000Z''),
             (''configuration'', JObj [(''instanceType'', JStr ''t2.micro'')])]"
  have h1: "lookup ?c ''resourceType'' = JStr ''AWS::EC2::Instance'' \<Longrightarrow>
             lookup ?c ''configuration'' \<noteq> JUndefined \<and> lookup ?c ''configuration'' \<noteq> JNull"
    by (simp add: lookup_def)
  have h2: "lookup [(''resourceType'', JStr ''AWS::S3::Bucket'')] ''resourceType'' = JStr ''AWS::EC2::Instance'' \<Longrightarrow>
             lookup [(''resourceType'', JStr ''AWS::S3::Bucket'')] ''configuration'' \<noteq> JUndefined
             \<and> lookup [(''resourceType'', JStr ''AWS::S3::Bucket'')] ''configuration'' \<noteq> JNull"
    by (simp add: lookup_def)
  show ?thesis
    using evaluateCompliance_cases [OF h1, of "[(''desiredInstanceType'', JStr ''t2.micro'')]"]
      evaluateCompliance_cases [OF h1, of "[(''desiredInstanceType'', JStr ''m4.large'')]"]
      evaluateCompliance_cases [OF h2, of "[]"]
    by (simp add: example_item_def lookup_def)
qed

text \<open>
  The claim as the specification states it ("for every configuration item ...
  \<^verbatim>\<open>NON_COMPLIANT\<close> in every other case") fails on an EC2 instance item without a
  \<^verbatim>\<open>configuration\<close>: reading \<^verbatim>\<open>configuration.instanceType\<close> throws a TypeError, and nothing
  is returned.
\<close>

theorem evaluateCompliance_counterexample:
  "evaluateCompliance (JObj [(''resourceType'', JStr ''AWS::EC2::Instance'')])
                      (JObj [(''desiredInstanceType'', JStr ''t2.micro'')]) = Inl TypeError
   \<and> evaluateCompliance (JObj [(''resourceType'', JStr ''AWS::EC2::Instance'')])
                        (JObj [(''desiredInstanceType'', JStr ''t2.micro'')])
       \<noteq> Inr (JStr ''NON_COMPLIANT'')"
  by (simp add: evaluateCompliance_def get_prop_def lookup_def)

section \<open>The request that reports the evaluation\<close>

text \<open>
  Claim C5. For a verdict \<open>V\<close> that is a string (a primitive string or a String object) and
  a snapshot that is neither null nor undefined, the request holds exactly one report
  record: its compliance label is \<open>V\<close>, and its resource type, resource id and ordering
  timestamp are the snapshot's \<^verbatim>\<open>resourceType\<close>, \<^verbatim>\<open>resourceId\<close> and
  \<^verbatim>\<open>configurationItemCaptureTime\<close>.
\<close>

theorem single_label_one_record:
  assumes "typeof_string V \<or> instanceof_String V"
    and "configurationItem \<noteq> JUndefined" and "configurationItem \<noteq> JNull"
  shows "putEvaluationsRequest_of V configurationItem =
           Inr (JObj [(''Evaluations'',
                  JArr [JObj [(''ComplianceResourceType'', read_prop configurationItem ''resourceType''),
                              (''ComplianceResourceId'', read_prop configurationItem ''resourceId''),
                              (''ComplianceType'', V),
                              (''OrderingTimestamp'',
                                 read_prop configurationItem ''configurationItemCaptureTime'')]] [])])"
  using assms by (simp add: putEvaluationsRequest_of_def evaluation_of_def get_prop_defined)

theorem single_label_one_record_witness:
  "putEvaluationsRequest_of (JStr ''NON_COMPLIANT'') example_item =
     Inr (JObj [(''Evaluations'',
            JArr [JObj [(''ComplianceResourceType'', JStr ''AWS::EC2::Instance''),
                        (''ComplianceResourceId'', JStr ''i-0abc''),
                        (''ComplianceType'', JStr ''NON_COMPLIANT''),
                        (''OrderingTimestamp'', JStr ''2017-01-01T00:00:00.000Z'')]] [])])"
proof -
  have h1: "typeof_string (JStr ''NON_COMPLIANT'') \<or> instanceof_String (JStr ''NON_COMPLIANT'')"
    by simp
  have h2: "example_item \<noteq> JUndefined" and h3: "example_item \<noteq> JNull"
    by (simp_all add: example_item_def)
  show ?thesis
    using single_label_one_record [OF h1 h2 h3] by (simp add: example_item_def lookup_def)
qed

lemma list_verdict_throws:
  "putEvaluationsRequest_of (JArr candidates ps) configurationItem = Inl ReferenceError"
  by (simp add: putEvaluationsRequest_of_def)

text \<open>
  Claim C2 says that a list verdict of \<open>N\<close> well-formed and \<open>M\<close> malformed candidates gives
  the \<open>N\<close> well-formed records and no exception. The code does not do so: the branch for an
  array throws at its first statement. Here the evaluator returns a list of one well-formed
  candidate for a change notification: the handler ends with a ReferenceError, having sent
  nothing and called its callback not at all.
\<close>

theorem list_verdict_run:
  "lambda_handler
     (\<lambda>configurationItem ruleParameters.
        Inr (JArr [JObj [(''ComplianceResourceType'', JStr ''AWS::EC2::Instance''),
                         (''ComplianceResourceId'', JStr ''i-0abc''),
                         (''ComplianceType'', JStr ''COMPLIANT''),
                         (''OrderingTimestamp'', JStr ''2017-01-01T00:00:00.000Z'')]] []))
     (example_env change_notification no_history accepted) example_event lambda_callback
   = ([Log example_event], Inl ReferenceError)"
  by (simp add: lambda_handler_def checkDefined_def get_prop_def example_event_def lookup_def
      example_env_def change_notification_def getConfigurationItem_def
      isOverSizedChangeNotification_def isScheduledNotification_def example_item_def
      on_configurationItem_def isApplicable_def rule_handler_def list_verdict_throws)

section \<open>The report submitter\<close>

text \<open>
  Claim C4. When the call of the tracking service comes back without a service error and
  with a list of per-record failures: if the list is not empty the handler calls back with
  an error, the serialised response (which holds the failures), and no data; if the list is
  empty it calls back with no error and the response. The request sent is the one it was
  given, with the event's result token.
\<close>

theorem submission_outcome:
  assumes "event \<noteq> JUndefined" and "event \<noteq> JNull"
    and "set_prop putEvaluationsRequest ''ResultToken'' (read_prop event ''resultToken'') = Inr request"
    and "putEvaluations E request = (error, data)"
    and "\<not> truthy error"
    and "read_prop data ''FailedEvaluations'' = JArr failures ps"
  shows "reportEvaluations E putEvaluationsRequest event lambda_callback =
           ([PutCall request,
             if failures \<noteq> [] then Callback (JSON_stringify E data) JNull
             else Callback JNull data],
            Inr ())"
proof -
  have "get_prop data ''FailedEvaluations'' = Inr (JArr failures ps)"
    using has_prop_defined [OF assms(6)] assms(6) by (simp add: get_prop_def)
  moreover have "js_lt E (JNum 0) (JNum (int (length failures))) = (failures \<noteq> [])"
    by (simp add: js_lt_def)
  ultimately show ?thesis
    using assms(1-5)
    by (simp add: reportEvaluations_def get_prop_defined get_prop_def [of "JArr failures ps"]
        lambda_callback_def)
qed

theorem submission_outcome_witness:
  "reportEvaluations
     (example_env change_notification no_history
        (JNull, JObj [(''FailedEvaluations'', JArr [JObj [(''ComplianceResourceId'', JStr ''i-0abc'')]] [])]))
     (JObj [(''Evaluations'', JArr [] [])]) example_event lambda_callback
   = ([PutCall (JObj [(''Evaluations'', JArr [] []), (''ResultToken'', JStr ''token-1'')]),
       Callback (JStr ''INV'') JNull], Inr ())
   \<and> reportEvaluations (example_env change_notification no_history accepted)
     (JObj [(''Evaluations'', JArr [] [])]) example_event lambda_callback
   = ([PutCall (JObj [(''Evaluations'', JArr [] []), (''ResultToken'', JStr ''token-1'')]),
       Callback JNull (JObj [(''FailedEvaluations'', JArr [] [])])], Inr ())"
proof -
  let ?failed = "JObj [(''FailedEvaluations'', JArr [JObj [(''ComplianceResourceId'', JStr ''i-0abc'')]] [])]"
  let ?request = "JObj [(''Evaluations'', JArr [] []), (''ResultToken'', JStr ''token-1'')]"
  have h1: "example_event \<noteq> JUndefined" and h2: "example_event \<noteq> JNull"
    by (simp_all add: example_event_def)
  have h3: "set_prop (JObj [(''Evaluations'', JArr [] [])]) ''ResultToken''
              (read_prop example_event ''resultToken'') = Inr ?request"
    by (simp add: example_event_def lookup_def)
  have a4: "putEvaluations (example_env change_notification no_history (JNull, ?failed)) ?request
              = (JNull, ?failed)"
    by (simp add: example_env_def)
  have b4: "putEvaluations (example_env change_notification no_history accepted) ?request
              = (JNull, JObj [(''FailedEvaluations'', JArr [] [])])"
    by (simp add: example_env_def accepted_def)
  have h5: "\<not> truthy JNull" by simp
  have a6: "read_prop ?failed ''FailedEvaluations''
              = JArr [JObj [(''ComplianceResourceId'', JStr ''i-0abc'')]] []"
    by (simp add: lookup_def)
  have b6: "read_prop (JObj [(''FailedEvaluations'', JArr [] [])]) ''FailedEvaluations'' = JArr [] []"
    by (simp add: lookup_def)
  show ?thesis
    using submission_outcome [OF h1 h2 h3 a4 h5 a6] submission_outcome [OF h1 h2 h3 b4 h5 b6]
    by (simp add: example_env_def)
qed


section \<open>The snapshot resolver\<close>





section \<open>Scheduled notifications\<close>

text \<open>
  Claim C6. For an invocation whose invoking event parses to a notification of message type
  \<^verbatim>\<open>ScheduledNotification\<close>, the handler calls its callback once, with the error
  "RDK utility class does not yet support Scheduled Notifications.", and sends nothing to
  the tracking service. (After the callback the code goes on and throws on the absent
  snapshot.)
\<close>

theorem scheduled_unsupported:
  assumes "truthy event"
    and "JSON_parse E (read_prop event ''invokingEvent'') = Inr invokingEvent"
    and "JSON_parse E (read_prop event ''ruleParameters'') = Inr ruleParameters"
    and "read_prop invokingEvent ''messageType'' = JStr ''ScheduledNotification''"
  shows "lambda_handler evaluate E event lambda_callback =
           ([Callback (JStr ''RDK utility class does not yet support Scheduled Notifications.'')
               JUndefined],
            Inl (JsError ''Error: configurationItem is not defined''))
         \<and> put_calls (fst (lambda_handler evaluate E event lambda_callback)) = []"
proof -
  have iv: "truthy invokingEvent"
    using assms(4) by (rule has_prop_truthy) simp
  have resolve: "getConfigurationItem E invokingEvent k = k JNull JNull" for k
    using iv assms(4)
    by (simp add: getConfigurationItem_def checkDefined_truthy get_prop_truthy
        isOverSizedChangeNotification_def isScheduledNotification_def)
  have "on_configurationItem evaluate E event invokingEvent lambda_callback JNull JNull =
          ([Callback (JStr ''RDK utility class does not yet support Scheduled Notifications.'')
              JUndefined],
           Inl (JsError ''Error: configurationItem is not defined''))"
    by (simp add: on_configurationItem_def lambda_callback_def isApplicable_def checkDefined_def)
  then show ?thesis
    using assms(1-3) by (simp add: lambda_handler_def checkDefined_truthy get_prop_truthy resolve)
qed

theorem scheduled_unsupported_witness:
  "lambda_handler evaluateCompliance
     (example_env (JObj [(''messageType'', JStr ''ScheduledNotification'')]) no_history accepted)
     example_event lambda_callback
   = ([Callback (JStr ''RDK utility class does not yet support Scheduled Notifications.'')
         JUndefined],
      Inl (JsError ''Error: configurationItem is not defined''))"
proof -
  let ?iv = "JObj [(''messageType'', JStr ''ScheduledNotification'')]"
  let ?E = "example_env ?iv no_history accepted"
  have h1: "truthy example_event" by (simp add: example_event_def)
  have h2: "JSON_parse ?E (read_prop example_event ''invokingEvent'') = Inr ?iv"
    by (simp add: example_env_def example_event_def lookup_def)
  have h3: "JSON_parse ?E (read_prop example_event ''ruleParameters'')
              = Inr (JObj [(''desiredInstanceType'', JStr ''t2.micro'')])"
    by (simp add: example_env_def example_event_def lookup_def)
  have h4: "read_prop ?iv ''messageType'' = JStr ''ScheduledNotification''"
    by (simp add: lookup_def)
  show ?thesis
    using scheduled_unsupported [OF h1 h2 h3 h4, of evaluateCompliance] by simp
qed

section \<open>What an invocation sends\<close>

lemma put_calls_append: "put_calls (t @ t') = put_calls t @ put_calls t'"
  by (induction t rule: put_calls.induct) simp_all

lemma put_calls_bindW:
  "put_calls (fst (bindW m f)) =
     put_calls (fst m) @ (case snd m of Inl e \<Rightarrow> [] | Inr a \<Rightarrow> put_calls (fst (f a)))"
  by (cases m) (auto simp: bindW_def put_calls_append split: sum.splits prod.splits)

lemma snd_bindW:
  "snd (bindW m f) = (case snd m of Inl e \<Rightarrow> Inl e | Inr a \<Rightarrow> snd (f a))"
  by (cases m) (auto simp: bindW_def split: sum.splits prod.splits)

lemma callback_parts [simp]:
  "put_calls (fst (lambda_callback a b)) = []" "snd (lambda_callback a b) = Inr ()"
  by (simp_all add: lambda_callback_def)

lemma whenW_callback_parts [simp]:
  "put_calls (fst (whenW c (lambda_callback a b))) = []"
  "snd (whenW c (lambda_callback a b)) = Inr ()"
  by (simp_all add: whenW_def)

lemma request_shape:
  "putEvaluationsRequest_of compliance configurationItem = Inr request \<Longrightarrow>
     \<exists>evaluation. request = JObj [(''Evaluations'', JArr [evaluation] [])]"
  by (auto simp: putEvaluationsRequest_of_def bindE_def split: if_splits sum.splits)

lemma report_once:
  "reports_once event
     (reportEvaluations E (JObj [(''Evaluations'', JArr [evaluation] [])]) event lambda_callback)"
proof (cases "event = JUndefined \<or> event = JNull")
  case True
  then show ?thesis
    by (auto simp: reports_once_def reportEvaluations_def get_prop_def)
next
  case False
  then show ?thesis
    by (auto simp: reports_once_def reportEvaluations_def get_prop_def put_calls_bindW
        split: prod.splits sum.splits)
qed

lemma token_kept:
  "set_prop event ''invokingEvent'' s = Inr event' \<Longrightarrow>
     read_prop event' ''resultToken'' = read_prop event ''resultToken''"
  by (cases event) (auto simp: lookup_def update_conv')

lemma reports_once_cong:
  "read_prop event' ''resultToken'' = read_prop event ''resultToken'' \<Longrightarrow>
     reports_once event' r = reports_once event r"
  by (simp add: reports_once_def)

lemma rule_handler_quiet:
  "put_calls (fst (rule_handler evaluate E event
      (\<lambda>err computedCompliance.
         bindW (whenW (truthy err) (lambda_callback err JUndefined))
           (\<lambda>_. returnW computedCompliance)))) = []"
  by (simp add: rule_handler_def put_calls_bindW split: sum.splits)

lemma reports_once_bindW:
  assumes "put_calls (fst m) = []"
    and "\<And>a. snd m = Inr a \<Longrightarrow> reports_once event (f a)"
  shows "reports_once event (bindW m f)"
proof (cases "snd m")
  case (Inl e)
  with assms(1) show ?thesis by (simp add: reports_once_def put_calls_bindW)
next
  case (Inr a)
  with assms(1) assms(2) [OF Inr] show ?thesis by (simp add: reports_once_def put_calls_bindW)
qed

lemma fails_quietly_bindW:
  assumes "put_calls (fst m) = []"
    and "\<And>a. snd m = Inr a \<Longrightarrow> fails_quietly (f a)"
  shows "fails_quietly (bindW m f)"
proof (cases "snd m")
  case (Inl e)
  with assms(1) show ?thesis by (simp add: fails_quietly_def put_calls_bindW snd_bindW)
next
  case (Inr a)
  with assms(1) assms(2) [OF Inr] show ?thesis
    by (simp add: fails_quietly_def put_calls_bindW snd_bindW)
qed

lemma fails_quietly_first: "fails_quietly m \<Longrightarrow> fails_quietly (bindW m f)"
  by (auto simp: fails_quietly_def put_calls_bindW snd_bindW)

lemma fails_quietly_once: "fails_quietly m \<Longrightarrow> reports_once event (bindW m f)"
  by (auto simp: fails_quietly_def reports_once_def put_calls_bindW)

text \<open>Without a snapshot the callback of the handler throws in \<open>isApplicable\<close>, after its
  calls of the Lambda callback.\<close>

lemma on_item_falsy:
  assumes "\<not> truthy configurationItem"
  shows "fails_quietly
           (on_configurationItem evaluate E event invokingEvent lambda_callback err configurationItem)"
proof -
  have "isApplicable configurationItem event = Inl (JsError ''Error: configurationItem is not defined'')"
    using assms by (simp add: isApplicable_def checkDefined_falsy)
  then show ?thesis
    unfolding on_configurationItem_def
    by (intro fails_quietly_bindW) simp_all
qed

lemma report_after_request:
  assumes "read_prop event' ''resultToken'' = read_prop event ''resultToken''"
  shows "reports_once event
      (bindW (liftE (putEvaluationsRequest_of compliance configurationItem))
         (\<lambda>request. reportEvaluations E request event' lambda_callback))"
proof (rule reports_once_bindW)
  show "put_calls (fst (liftE (putEvaluationsRequest_of compliance configurationItem))) = []"
    by simp
next
  fix request
  assume "snd (liftE (putEvaluationsRequest_of compliance configurationItem)) = Inr request"
  then have "putEvaluationsRequest_of compliance configurationItem = Inr request" by simp
  then obtain evaluation where "request = JObj [(''Evaluations'', JArr [evaluation] [])]"
    using request_shape by blast
  then show "reports_once event (reportEvaluations E request event' lambda_callback)"
    using report_once [of event' E evaluation] reports_once_cong [OF assms] by blast
qed

lemma on_item_once:
  "reports_once event
     (on_configurationItem evaluate E event invokingEvent lambda_callback err configurationItem)"
  unfolding on_configurationItem_def
proof (intro reports_once_bindW, goal_cases)
  case 1
  show ?case by simp
next
  case (2 a)
  show ?case by simp
next
  case (3 a aa)
  show ?case by simp
next
  case (4 a aa applicable)
  show ?case
    by (simp add: put_calls_bindW rule_handler_quiet split: sum.splits)
next
  case (5 a aa applicable ce)
  obtain c e where ce: "ce = (c, e)" by (cases ce)
  from 5(4) ce have "read_prop e ''resultToken'' = read_prop event ''resultToken''"
    by (auto simp: snd_bindW token_kept split: if_splits sum.splits)
  from report_after_request [OF this] ce show ?case by simp
qed

lemma getConfiguration_once:
  assumes once: "\<And>ci. reports_once event (k JNull ci)"
    and fail: "\<And>err. truthy err \<Longrightarrow> fails_quietly (k err JNull)"
  shows "reports_once event (getConfiguration E resourceType resourceId captureTime k)"
proof -
  let ?request = "\<lparr>req_resourceType = resourceType, req_resourceId = resourceId,
                      laterTime_arg = captureTime, req_limit = 1\<rparr>"
  obtain err data where resp: "getResourceConfigHistory E ?request = (err, data)"
    by (cases "getResourceConfigHistory E ?request")
  have after: "reports_once event
      (bindW (whenW (truthy err) (k err JNull)) (\<lambda>_.
         bindW (liftE (bindE (get_prop data ''configurationItems'') (\<lambda>items. get_index items 0)))
           (\<lambda>configurationItem. k JNull configurationItem)))"
  proof (cases "truthy err")
    case True
    then show ?thesis
      using fails_quietly_once [OF fail [OF True]] by simp
  next
    case False
    then show ?thesis
      by (auto intro!: reports_once_bindW once)
  qed
  have "put_calls (fst (emit (HistoryCall ?request))) = []"
    by simp
  then show ?thesis
    unfolding getConfiguration_def Let_def
    by (rule reports_once_bindW) (simp add: resp after)
qed

lemma resolver_once:
  assumes once: "\<And>err ci. reports_once event (k err ci)"
    and fail: "\<And>err ci. \<not> truthy ci \<Longrightarrow> fails_quietly (k err ci)"
  shows "reports_once event (getConfigurationItem E invokingEvent k)"
proof -
  have inner_once: "reports_once event
      (bindW (whenW (truthy err) (k err JUndefined)) (\<lambda>_.
         bindW (liftE (convertApiConfiguration E api)) (\<lambda>configurationItem.
           k JNull configurationItem)))" if "\<not> truthy err" for err api
    using that by (auto intro!: reports_once_bindW once)
  have inner_fail: "fails_quietly
      (bindW (whenW (truthy err) (k err JUndefined)) (\<lambda>_.
         bindW (liftE (convertApiConfiguration E api)) (\<lambda>configurationItem.
           k JNull configurationItem)))" if "truthy err" for err api
    using that fail [of JUndefined err] by (simp add: fails_quietly_first)
  show ?thesis
    unfolding getConfigurationItem_def
    by (auto intro!: reports_once_bindW getConfiguration_once once inner_fail
        simp: inner_once [of JNull, simplified])
qed

lemma handler_once:
  "reports_once event (lambda_handler evaluate E event lambda_callback)"
  unfolding lambda_handler_def
  by (auto intro!: reports_once_bindW resolver_once on_item_once on_item_falsy)

text \<open>The run of the handler on the example change notification: the evaluator is called,
  one request is sent, and the callback reports success.\<close>

lemma example_run:
  "lambda_handler evaluateCompliance (example_env change_notification no_history accepted)
     example_event lambda_callback
   = ([Log example_event,
       PutCall (JObj [(''Evaluations'',
                  JArr [JObj [(''ComplianceResourceType'', JStr ''AWS::EC2::Instance''),
                              (''ComplianceResourceId'', JStr ''i-0abc''),
                              (''ComplianceType'', JStr ''COMPLIANT''),
                              (''OrderingTimestamp'', JStr ''2017-01-01T00:00:00.000Z'')]] []),
                (''ResultToken'', JStr ''token-1'')]),
       Callback JNull (JObj [(''FailedEvaluations'', JArr [] [])])], Inr ())"
  by (simp add: lambda_handler_def checkDefined_def get_prop_def example_event_def lookup_def
      example_env_def change_notification_def getConfigurationItem_def
      isOverSizedChangeNotification_def isScheduledNotification_def example_item_def
      on_configurationItem_def isApplicable_def rule_handler_def evaluateCompliance_def
      putEvaluationsRequest_of_def evaluation_of_def reportEvaluations_def accepted_def
      js_lt_def lambda_callback_def)

text \<open>
  Claim C9. An invocation that reaches the submission call makes exactly one such call, and
  the \<^verbatim>\<open>ResultToken\<close> of its request is the \<^verbatim>\<open>resultToken\<close> of the invocation payload.
\<close>

theorem result_token_threaded:
  "put_calls (fst (lambda_handler evaluate E event lambda_callback)) \<noteq> [] \<longrightarrow>
     (\<exists>request. put_calls (fst (lambda_handler evaluate E event lambda_callback)) = [request]
        \<and> read_prop request ''ResultToken'' = read_prop event ''resultToken'')"
  using handler_once [of event evaluate E]
  by (auto simp: reports_once_def lookup_def)

theorem result_token_threaded_witness:
  "\<exists>request.
     put_calls (fst (lambda_handler evaluateCompliance
        (example_env change_notification no_history accepted) example_event lambda_callback))
       = [request]
     \<and> read_prop request ''ResultToken'' = JStr ''token-1''"
  using result_token_threaded [of evaluateCompliance
      "example_env change_notification no_history accepted" example_event]
  by (simp add: example_run) (simp add: example_event_def lookup_def)



end
